theory Spec2Isabelle
  imports Complex_Main "HOL-Library.Sublist"
begin

section \<open>The C-PAC BIDS-App runner (\<open>run.py\<close>)\<close>

text \<open>
  \<open>run.py\<close> is a Python 2 script (line 107 is a \<open>print\<close> statement): it parses the
  command line, merges the command-line values into a pipeline configuration loaded from
  YAML, writes that configuration, resolves the data configuration, writes it, and hands
  both files to the C-PAC engine. The model below follows the script top to bottom,
  from the parsed command line (line 101) on. A run is a list of effects (what was
  printed, written and called) and an outcome (\<open>sys.exit(n)\<close>, an uncaught
  exception, or a collaborator that never returned).
\<close>

subsection \<open>Values, errors, outcomes\<close>

text \<open>
  The values of a YAML document and of the two configuration dictionaries. \<open>'f\<close> is
  the type of Python floats: the script only converts to and from floats and divides by
  \<open>1024.0\<close>, so their arithmetic is a parameter of the model.
\<close>

datatype 'f pyval =
    PNone
  | PBool bool
  | PInt int
  | PFloat 'f
  | PStr string
  | PList "'f pyval list"
  | PDict "(string \<times> 'f pyval) list"

datatype py_error =
    NameError string
  | AttributeError string
  | TypeError
  | ValueError
  | KeyError string
  | IOError string
  | CollaboratorError string

datatype outcome = Exit int | Raised py_error | NoReturn


datatype 'f effect =
    Print string "'f pyval list"
  | PrintArgs
  | GuiRun
  | RunCommand string
  | WriteYaml string "'f pyval"
  | EngineRun string string int int

text \<open>
  \<open>Print fmt xs\<close> is \<open>print(fmt.format(*xs))\<close>; \<open>WriteYaml p d\<close> is
  \<open>yaml.dump(d, open(p, 'w'))\<close>; \<open>EngineRun c d n m\<close> is the call of
  \<open>CPAC.pipeline.cpac_runner.run\<close> on the two files with \<open>n_procs = n\<close> and
  \<open>memory_gb = m\<close>.
\<close>

subsection \<open>The command line\<close>

datatype analysis_level = Participant | Group | Test_config | GUI

text \<open>
  The \<open>argparse\<close> namespace. No option has a \<open>type=\<close>, so every value is a string;
  an option that was not given is \<open>None\<close>, except \<open>--n_cpus\<close> (default \<open>"1"\<close>),
  \<open>--pipeline_file\<close> and the two \<open>store_true\<close> flags.
\<close>

record args =
  bids_dir :: string
  output_dir :: string
  level :: analysis_level
  pipeline_file :: string
  data_config_file :: "string option"
  aws_input_creds :: "string option"
  aws_output_creds :: "string option"
  n_cpus :: string
  mem_mb :: "string option"
  mem_gb :: "string option"
  save_working_dir :: bool
  disable_file_logging :: bool
  participant_label :: "string list option"
  participant_ndx :: "string option"
  bids_validator_config :: "string option"
  skip_bids_validator :: bool

subsection \<open>The interpreter and the collaborators\<close>

datatype call_result = Returns | Fails | Hangs

text \<open>
  What the script takes from outside: the built-in conversions (\<open>None\<close> is the
  exception the conversion raises), float division and the two float literals, the file
  system, the clock (\<open>now\<close> is \<open>st\<close>, the formatted time stamp), and the collaborators:
  the GUI, the validator run through \<open>run(command)\<close>, \<open>BIDSLayout(...).get_subjects()\<close>
  and the engine.
\<close>

record 'f runtime =
  int_of_str :: "string \<Rightarrow> int option"
  float_of_str :: "string \<Rightarrow> 'f option"
  int_of_float :: "'f \<Rightarrow> int option"
  float_div :: "'f \<Rightarrow> 'f \<Rightarrow> 'f"
  float_1024 :: 'f
  float_6 :: 'f
  path_exists :: "string \<Rightarrow> bool"
  path_isfile :: "string \<Rightarrow> bool"
  realpath :: "string \<Rightarrow> string"
  yaml_load :: "string \<Rightarrow> 'f pyval option"
  open_w :: "string \<Rightarrow> bool"
  now :: string
  gui_run :: call_result
  run_command :: "string \<Rightarrow> call_result"
  bids_layout :: "string \<Rightarrow> bool"
  get_subjects :: "string \<Rightarrow> string list option"
  cpac_import :: bool
  cpac_run :: call_result

subsection \<open>Strings and paths\<close>

definition lower_char :: "char \<Rightarrow> char" where
  "lower_char c =
     (case map_of (zip ''ABCDEFGHIJKLMNOPQRSTUVWXYZ'' ''abcdefghijklmnopqrstuvwxyz'') c of
        Some l \<Rightarrow> l
      | None \<Rightarrow> c)"

definition lower :: "string \<Rightarrow> string" where
  "lower s = map lower_char s"

text \<open>\<open>startswith s p\<close> is \<open>s.startswith(p)\<close>; \<open>str_in sub s\<close> is \<open>sub in s\<close>.\<close>

fun startswith :: "string \<Rightarrow> string \<Rightarrow> bool" where
  "startswith s [] = True"
| "startswith [] (p # ps) = False"
| "startswith (c # cs) (p # ps) = (c = p \<and> startswith cs ps)"

fun str_in :: "string \<Rightarrow> string \<Rightarrow> bool" where
  "str_in sub [] = (sub = [])"
| "str_in sub (c # cs) = (startswith (c # cs) sub \<or> str_in sub cs)"

text \<open>\<open>lstrip chars s\<close> is \<open>s.lstrip(chars)\<close>: it drops leading characters that occur in \<open>chars\<close>.\<close>

definition lstrip :: "string \<Rightarrow> string \<Rightarrow> string" where
  "lstrip chars s = dropWhile (\<lambda>c. c \<in> set chars) s"

text \<open>\<open>os.path.join(a, b)\<close> of \<open>posixpath\<close>, for two arguments.\<close>

definition path_join :: "string \<Rightarrow> string \<Rightarrow> string" where
  "path_join a b =
     (if startswith b ''/'' then b
      else if a = [] \<or> last a = CHR ''/'' then a @ b
      else a @ ''/'' @ b)"

subsection \<open>Dictionaries and conversions\<close>

type_synonym 'f dict = "(string \<times> 'f pyval) list"

text \<open>\<open>d[k] = v\<close>: an existing key keeps its place, a new key is added.\<close>

fun setitem :: "'f dict \<Rightarrow> string \<Rightarrow> 'f pyval \<Rightarrow> 'f dict" where
  "setitem [] k v = [(k, v)]"
| "setitem ((k', v') # d) k v = (if k' = k then (k, v) # d else (k', v') # setitem d k v)"

text \<open>\<open>obj[k]\<close> with a string \<open>k\<close>: only a dictionary can be subscripted by a string.\<close>

definition getitem :: "'f pyval \<Rightarrow> string \<Rightarrow> py_error + 'f pyval" where
  "getitem obj k =
     (case obj of
        PDict d \<Rightarrow> (case map_of d k of None \<Rightarrow> Inl (KeyError k) | Some v \<Rightarrow> Inr v)
      | _ \<Rightarrow> Inl TypeError)"

definition py_len :: "'f pyval \<Rightarrow> py_error + int" where
  "py_len obj =
     (case obj of
        PStr s \<Rightarrow> Inr (int (length s))
      | PList xs \<Rightarrow> Inr (int (length xs))
      | PDict d \<Rightarrow> Inr (int (length d))
      | _ \<Rightarrow> Inl TypeError)"

text \<open>\<open>int(x)\<close> on a value of a YAML document.\<close>

definition py_int :: "'f runtime \<Rightarrow> 'f pyval \<Rightarrow> py_error + int" where
  "py_int rt x =
     (case x of
        PInt n \<Rightarrow> Inr n
      | PBool b \<Rightarrow> Inr (if b then 1 else 0)
      | PStr s \<Rightarrow> (case int_of_str rt s of None \<Rightarrow> Inl ValueError | Some n \<Rightarrow> Inr n)
      | PFloat f \<Rightarrow> (case int_of_float rt f of None \<Rightarrow> Inl ValueError | Some n \<Rightarrow> Inr n)
      | _ \<Rightarrow> Inl TypeError)"

subsection \<open>Sequencing effects\<close>

type_synonym ('f, 'a) step = "'f effect list \<times> (outcome + 'a)"

definition and_then :: "('f, 'a) step \<Rightarrow> ('a \<Rightarrow> ('f, 'b) step) \<Rightarrow> ('f, 'b) step" where
  "and_then m f =
     (case m of
        (es, Inl out) \<Rightarrow> (es, Inl out)
      | (es, Inr a) \<Rightarrow> (case f a of (es', r) \<Rightarrow> (es @ es', r)))"

definition emit :: "'f effect \<Rightarrow> ('f, unit) step" where
  "emit e = ([e], Inr ())"

definition lift :: "py_error + 'a \<Rightarrow> ('f, 'a) step" where
  "lift r = (case r of Inl e \<Rightarrow> ([], Inl (Raised e)) | Inr a \<Rightarrow> ([], Inr a))"

definition call :: "call_result \<Rightarrow> string \<Rightarrow> ('f, unit) step" where
  "call r name =
     (case r of
        Returns \<Rightarrow> ([], Inr ())
      | Fails \<Rightarrow> ([], Inl (Raised (CollaboratorError name)))
      | Hangs \<Rightarrow> ([], Inl NoReturn))"

definition seq :: "py_error + 'a \<Rightarrow> ('a \<Rightarrow> py_error + 'b) \<Rightarrow> py_error + 'b" where
  "seq r f = (case r of Inl e \<Rightarrow> Inl e | Inr a \<Rightarrow> f a)"

definition given :: "string option \<Rightarrow> string option" where
  "given s = (case s of None \<Rightarrow> None | Some v \<Rightarrow> if v = [] then None else Some v)"

definition given_list :: "string list option \<Rightarrow> string list option" where
  "given_list s = (case s of None \<Rightarrow> None | Some v \<Rightarrow> if v = [] then None else Some v)"

text \<open>
  \<open>given s\<close> is the test \<open>if s:\<close> on an optional string, keeping the string when the
  test passes: \<open>None\<close> and the empty string are false in Python.
\<close>

definition py_int_str :: "'f runtime \<Rightarrow> string \<Rightarrow> py_error + int" where
  "py_int_str rt s = (case int_of_str rt s of None \<Rightarrow> Inl ValueError | Some n \<Rightarrow> Inr n)"

definition py_float :: "'f runtime \<Rightarrow> string \<Rightarrow> py_error + 'f" where
  "py_float rt s = (case float_of_str rt s of None \<Rightarrow> Inl ValueError | Some v \<Rightarrow> Inr v)"

subsection \<open>Lines 105 to 133: GUI, directory checks, validator\<close>

definition import_cpac :: "'f runtime \<Rightarrow> ('f, unit) step" where
  "import_cpac rt =
     (if cpac_import rt then ([], Inr ()) else ([], Inl (Raised (CollaboratorError ''import''))))"

definition gui_branch :: "'f runtime \<Rightarrow> args \<Rightarrow> ('f, unit) step" where
  "gui_branch rt a =
     (if level a = GUI then
        and_then (emit (Print ''Starting CPAC GUI'' [])) (\<lambda>_.
        and_then (import_cpac rt) (\<lambda>_.
        and_then (emit GuiRun) (\<lambda>_.
        and_then (call (gui_run rt) ''CPAC.GUI.run'') (\<lambda>_.
        ([], Inl (Exit 1))))))
      else ([], Inr ()))"

definition check_dirs :: "'f runtime \<Rightarrow> args \<Rightarrow> ('f, unit) step" where
  "check_dirs rt a =
     (if \<not> startswith (lower (bids_dir a)) ''s3://'' \<and> \<not> path_exists rt (bids_dir a) then
        ([Print ''Error! Could not find {0}'' [PStr (bids_dir a)]], Inl (Exit 0))
      else if \<not> startswith (lower (output_dir a)) ''s3://'' \<and> \<not> path_exists rt (output_dir a) then
        ([Print ''Error! Could not find {0}'' [PStr (output_dir a)]], Inl (Exit 0))
      else ([], Inr ()))"

text \<open>
  \<open>run(command)\<close> (lines 16 to 24) starts the command and echoes its output until the
  process has ended. The model records the command; the echoed lines are the
  validator's and are not recorded. Whether the loop ends is the process's affair:
  \<open>run_command\<close> tells whether the call returns, raises or never returns.
\<close>

definition run :: "'f runtime \<Rightarrow> string \<Rightarrow> ('f, unit) step" where
  "run rt command = and_then (emit (RunCommand command)) (\<lambda>_. call (run_command rt command) ''run'')"

definition validate :: "'f runtime \<Rightarrow> args \<Rightarrow> ('f, unit) step" where
  "validate rt a =
     (case given (bids_validator_config a) of
        Some config \<Rightarrow>
          and_then (emit (Print (CHR 0x0A # ''Running BIDS validator'') [])) (\<lambda>_.
          run rt (''bids-validator --config '' @ config @ '' '' @ bids_dir a))
      | None \<Rightarrow>
          if skip_bids_validator a then emit (Print ''skipping bids-validator...'' [])
          else
            and_then (emit (Print (CHR 0x0A # ''Running BIDS validator'') [])) (\<lambda>_.
            run rt (''bids-validator '' @ bids_dir a)))"

subsection \<open>Lines 137 to 189: the pipeline configuration\<close>

text \<open>\<open>yaml.load(open(os.path.realpath(p), 'r'))\<close>; \<open>None\<close> is a file that cannot be read or parsed.\<close>

definition load_yaml :: "'f runtime \<Rightarrow> string \<Rightarrow> ('f, 'f pyval) step" where
  "load_yaml rt p =
     (case yaml_load rt (realpath rt p) of
        None \<Rightarrow> ([], Inl (Raised (IOError p)))
      | Some doc \<Rightarrow> ([], Inr doc))"

text \<open>Lines 142 to 149. The first assignment raises \<open>TypeError\<close> on a document that is not a mapping.\<close>

definition set_directories :: "args \<Rightarrow> 'f pyval \<Rightarrow> py_error + 'f dict" where
  "set_directories a doc =
     (case doc of
        PDict d0 \<Rightarrow>
          (let d = setitem d0 ''outputDirectory'' (PStr (path_join (output_dir a) ''output'')) in
           if \<not> str_in ''s3://'' (lower (output_dir a)) then
             Inr (setitem (setitem d ''crashLogDirectory'' (PStr (path_join (output_dir a) ''crash'')))
                    ''logDirectory'' (PStr (path_join (output_dir a) ''log'')))
           else
             Inr (setitem (setitem d ''crashLogDirectory'' (PStr (path_join ''/scratch'' ''crash'')))
                    ''logDirectory'' (PStr (path_join ''/scratch'' ''log''))))
      | _ \<Rightarrow> Inl TypeError)"

text \<open>Lines 151 to 156.\<close>

definition resolve_memory :: "'f runtime \<Rightarrow> args \<Rightarrow> py_error + 'f" where
  "resolve_memory rt a =
     (case given (mem_gb a) of
        Some g \<Rightarrow> py_float rt g
      | None \<Rightarrow>
          (case given (mem_mb a) of
             Some m \<Rightarrow> seq (py_float rt m) (\<lambda>v. Inr (float_div rt v (float_1024 rt)))
           | None \<Rightarrow> Inr (float_6 rt)))"

text \<open>Lines 158 to 160.\<close>

definition resolve_cores :: "'f runtime \<Rightarrow> args \<Rightarrow> 'f dict \<Rightarrow> py_error + 'f dict" where
  "resolve_cores rt a d =
     seq (py_int_str rt (n_cpus a)) (\<lambda>n.
       let d1 = setitem d ''maxCoresPerParticipant'' (PInt n);
           d2 = setitem d1 ''numParticipantsAtOnce'' (PInt 1)
       in seq (getitem (PDict d2) ''num_ants_threads'') (\<lambda>t.
          seq (py_int rt t) (\<lambda>k.
            Inr (setitem d2 ''num_ants_threads'' (PInt (min n k))))))"

text \<open>Lines 162 to 172.\<close>

definition set_credentials :: "'f runtime \<Rightarrow> args \<Rightarrow> 'f dict \<Rightarrow> py_error + 'f dict" where
  "set_credentials rt a d =
     seq (case given (aws_input_creds a) of
            None \<Rightarrow> Inr d
          | Some c \<Rightarrow>
              if path_isfile rt c then Inr (setitem d ''awsCredentialsFile'' (PStr c))
              else Inl (IOError (''Could not find aws credentials '' @ c)))
       (\<lambda>d1. case given (aws_output_creds a) of
            None \<Rightarrow> Inr d1
          | Some c \<Rightarrow>
              if path_isfile rt c then Inr (setitem d1 ''awsOutputBucketCredentials'' (PStr c))
              else Inl (IOError (''Could not find aws credentials '' @ c)))"

text \<open>Lines 174 to 177.\<close>

definition set_logging :: "args \<Rightarrow> 'f dict \<Rightarrow> 'f dict" where
  "set_logging a d =
     (if disable_file_logging a then setitem d ''disable_log'' (PBool True)
      else setitem d ''disable_log'' (PBool False))"

text \<open>Lines 179 to 189.\<close>

definition s3_warning :: string where
  "s3_warning = ''Cannot write working directory to S3 bucket. Either change the output directory to something local or turn off the --removeWorkingDir flag''"

definition set_working_dir :: "args \<Rightarrow> 'f dict \<Rightarrow> ('f, 'f dict) step" where
  "set_working_dir a d =
     (if save_working_dir a then
        (if \<not> str_in ''s3://'' (lower (output_dir a)) then
           ([], Inr (setitem (setitem d ''removeWorkingDir'' (PBool False))
                       ''workingDirectory'' (PStr (path_join (output_dir a) ''working''))))
         else ([Print s3_warning []], Inr d))
      else
        ([], Inr (setitem (setitem d ''removeWorkingDir'' (PBool True))
                    ''workingDirectory'' (PStr (path_join ''/scratch'' ''working'')))))"

definition override_merger :: "'f runtime \<Rightarrow> args \<Rightarrow> 'f pyval \<Rightarrow> ('f, 'f dict) step" where
  "override_merger rt a doc =
     and_then
       (lift
          (seq (set_directories a doc) (\<lambda>d.
           seq (resolve_memory rt a) (\<lambda>m.
           seq (resolve_cores rt a (setitem d ''maximumMemoryPerParticipant'' (PFloat m))) (\<lambda>d.
           seq (set_credentials rt a d) (\<lambda>d.
           Inr (set_logging a d)))))))
       (set_working_dir a)"

subsection \<open>Lines 191 to 227: report, pipeline configuration file, group level\<close>

definition print_key :: "string \<Rightarrow> 'f dict \<Rightarrow> string \<Rightarrow> ('f, unit) step" where
  "print_key fmt d k = and_then (lift (getitem (PDict d) k)) (\<lambda>v. emit (Print fmt [v]))"

definition report :: "args \<Rightarrow> 'f dict \<Rightarrow> ('f, unit) step" where
  "report a d =
     and_then
       (case given_list (participant_label a) of
          Some labels \<Rightarrow> emit (Print ''#### Running C-PAC on {0}'' [PList (map PStr labels)])
        | None \<Rightarrow> emit (Print ''#### Running C-PAC'' [])) (\<lambda>_.
     and_then (print_key ''Number of participants to run in parallel: {0}'' d ''numParticipantsAtOnce'') (\<lambda>_.
     and_then (emit (Print ''Input directory: {0}'' [PStr (bids_dir a)])) (\<lambda>_.
     and_then (print_key ''Output directory: {0}'' d ''outputDirectory'') (\<lambda>_.
     and_then (print_key ''Working directory: {0}'' d ''workingDirectory'') (\<lambda>_.
     and_then (print_key ''Crash directory: {0}'' d ''crashLogDirectory'') (\<lambda>_.
     and_then (print_key ''Log directory: {0}'' d ''logDirectory'') (\<lambda>_.
     and_then (print_key ''Remove working directory: {0}'' d ''removeWorkingDir'') (\<lambda>_.
     and_then (print_key ''Available memory: {0} (GB)'' d ''maximumMemoryPerParticipant'') (\<lambda>_.
     and_then (print_key ''Available threads: {0}'' d ''maxCoresPerParticipant'') (\<lambda>_.
     print_key ''Number of threads for ANTs: {0}'' d ''num_ants_threads''))))))))))"

text \<open>Lines 212 to 215.\<close>

definition config_file_path :: "'f runtime \<Rightarrow> args \<Rightarrow> string" where
  "config_file_path rt a =
     (if \<not> str_in ''s3://'' (lower (output_dir a)) then
        path_join (output_dir a) (''cpac_pipeline_config_'' @ now rt @ ''.yml'')
      else path_join ''/scratch'' (''cpac_pipeline_config_'' @ now rt @ ''.yml''))"

text \<open>\<open>with open(p, 'w') as f: yaml.dump(doc, f)\<close>; \<open>open_w\<close> tells whether the file can be opened.\<close>

definition write_yaml :: "'f runtime \<Rightarrow> string \<Rightarrow> 'f pyval \<Rightarrow> ('f, unit) step" where
  "write_yaml rt p doc =
     (if open_w rt p then ([WriteYaml p doc], Inr ()) else ([], Inl (Raised (IOError p))))"

definition group_branch :: "args \<Rightarrow> string \<Rightarrow> ('f, unit) step" where
  "group_branch a config_file =
     (if level a = Group then
        ([Print ''Starting group level analysis of data in {0} using {1}''
            [PStr (bids_dir a), PStr config_file]], Inl (Exit 0))
      else ([], Inr ()))"

subsection \<open>Lines 230 to 271: the data configuration\<close>

text \<open>
  The names bound in the module when line 234 runs: the imports, \<open>run\<close>, and the
  variables assigned so far. (\<open>CPAC\<close> is imported only on the GUI branch, which has
  left by then; no built-in has one of the four names used below.)
\<close>

definition module_names :: "string list" where
  "module_names =
     [''argparse'', ''os'', ''subprocess'', ''yaml'', ''sys'', ''BIDSLayout'', ''datetime'',
      ''time'', ''__version__'', ''run'', ''parser'', ''args'', ''pipeline_config'', ''ts'',
      ''st'', ''config_file'', ''f'', ''layout'']"

text \<open>
  A dictionary display whose keys are bare identifiers, as lines 234 to 239 have it:
  each key is a name to look up, and a name that is not bound raises \<open>NameError\<close>.
  (Where a name is bound, the key is the object bound to it; the model keeps the name
  in its place.)
\<close>

fun dict_display :: "(string \<times> 'f pyval) list \<Rightarrow> py_error + 'f dict" where
  "dict_display [] = Inr []"
| "dict_display ((name, v) # rest) =
     (if name \<in> set module_names then seq (dict_display rest) (\<lambda>d. Inr ((name, v) # d))
      else Inl (NameError name))"

text \<open>
  A call \<open>s.name(t)\<close> on sets of strings, for the methods of \<open>set\<close> that take a set and
  return one. A set is a list without duplicates; Python fixes no iteration order.
\<close>

definition set_method :: "string \<Rightarrow> string list \<Rightarrow> string list \<Rightarrow> py_error + string list" where
  "set_method name xs ys =
     (if name = ''intersection'' then Inr (filter (\<lambda>x. x \<in> set ys) xs)
      else if name = ''difference'' then Inr (filter (\<lambda>x. x \<notin> set ys) xs)
      else if name = ''union'' then Inr (remdups (xs @ ys))
      else if name = ''symmetric_difference'' then
        Inr (filter (\<lambda>x. x \<notin> set ys) xs @ filter (\<lambda>y. y \<notin> set xs) ys)
      else Inl (AttributeError name))"

text \<open>Lines 244 to 262.\<close>

definition select_subjects :: "string list \<Rightarrow> string list option \<Rightarrow> ('f, string list) step" where
  "select_subjects found labels =
     (let subjects_bids = remdups found in
      case given_list labels of
        Some ls \<Rightarrow>
          (let subjects_selected = remdups (map (lstrip ''sub-'') ls) in
           and_then (lift (set_method ''intersect'' subjects_bids subjects_selected)) (\<lambda>subjects_torun.
           let subjects_missing = filter (\<lambda>x. x \<notin> set subjects_torun) subjects_selected in
           and_then
             (if subjects_missing \<noteq> [] then
                emit (Print ''participant_label has subjects not in the bids directory: {}''
                        [PList (map PStr subjects_missing)])
              else ([], Inr ())) (\<lambda>_.
           ([], Inr (map (\<lambda>sub. ''sub-'' @ sub) subjects_torun)))))
      | None \<Rightarrow> ([], Inr (map (\<lambda>sub. ''sub-'' @ sub) subjects_bids)))"

text \<open>Lines 264 to 266.\<close>

definition require_subjects :: "string list \<Rightarrow> ('f, unit) step" where
  "require_subjects subjects =
     (if subjects = [] then ([Print ''Did not find any files to process'' []], Inl (Exit 1))
      else ([], Inr ()))"

text \<open>Lines 233 to 268.\<close>

definition scan_path :: "'f runtime \<Rightarrow> args \<Rightarrow> ('f, 'f pyval) step" where
  "scan_path rt a =
     and_then
       (if bids_layout rt (bids_dir a) then ([], Inr ())
        else ([], Inl (Raised (CollaboratorError ''BIDSLayout'')))) (\<lambda>_.
     and_then
       (lift (dict_display
          [(''dataFormat'', PList [PStr ''BIDS'']),
           (''bidsBaseDir'', PStr (bids_dir a)),
           (''outputSubjectListLocation'', PStr (output_dir a)),
           (''subjectListName'', PList [PStr ''bids_sublist''])])) (\<lambda>dc.
     let data_config =
           (case given (aws_input_creds a) of
              Some c \<Rightarrow> setitem dc ''awsCredentialsFile'' (PStr c)
            | None \<Rightarrow> dc)
     in
     and_then
       (case get_subjects rt (bids_dir a) of
          Some found \<Rightarrow> ([], Inr found)
        | None \<Rightarrow> ([], Inl (Raised (CollaboratorError ''get_subjects'')))) (\<lambda>found.
     and_then (select_subjects found (participant_label a)) (\<lambda>subjects.
     and_then (require_subjects subjects) (\<lambda>_.
     ([], Inr (PDict (setitem data_config ''subjectList'' (PList (map PStr subjects))))))))))"

definition manifest :: "'f runtime \<Rightarrow> args \<Rightarrow> ('f, 'f pyval) step" where
  "manifest rt a =
     (case given (data_config_file a) of
        None \<Rightarrow> scan_path rt a
      | Some p \<Rightarrow> load_yaml rt p)"

subsection \<open>Lines 288 to 307: index selection and the data configuration file\<close>

text \<open>
  Line 289 is a chained comparison: \<open>len(data_config['subjectList'])\<close> is evaluated
  only when \<open>0 <= int(args.participant_ndx)\<close> holds. Line 291 subscripts the subject
  list with \<open>args.participant_ndx\<close> itself, which is a string.
\<close>

definition index_selection :: "'f runtime \<Rightarrow> args \<Rightarrow> 'f pyval \<Rightarrow> ('f, 'f pyval \<times> string) step" where
  "index_selection rt a data_config =
     (case given (participant_ndx a) of
        Some ndx \<Rightarrow>
          and_then (lift (py_int_str rt ndx)) (\<lambda>i.
          and_then
            (lift (if 0 \<le> i then
                     seq (getitem data_config ''subjectList'') (\<lambda>sl.
                     seq (py_len sl) (\<lambda>n. Inr (i < n)))
                   else Inr False)) (\<lambda>in_range.
          if in_range then
            and_then
              (lift (seq (getitem data_config ''subjectList'') (\<lambda>sl.
                     seq (getitem sl ndx) (\<lambda>x.
                     case data_config of
                       PDict d \<Rightarrow> Inr (PDict (setitem d ''subjectList'' (PList [x])))
                     | _ \<Rightarrow> Inl TypeError)))) (\<lambda>data_config'.
            ([], Inr (data_config', ''cpac_data_config_pt'' @ ndx @ ''_'' @ now rt @ ''.yml'')))
          else
            and_then (lift (seq (getitem data_config ''subjectList'') py_len)) (\<lambda>n.
            ([Print ''Participant ndx {0} is out of bounds [0,{1})'' [PInt i, PInt n]],
             Inl (Exit 1)))))
      | None \<Rightarrow> ([], Inr (data_config, ''cpac_data_config_'' @ now rt @ ''.yml'')))"

text \<open>Lines 301 to 304.\<close>

definition data_config_path :: "args \<Rightarrow> string \<Rightarrow> string" where
  "data_config_path a name =
     (if \<not> str_in ''s3://'' (lower (output_dir a)) then path_join (output_dir a) name
      else path_join ''/scratch'' name)"

subsection \<open>Lines 309 to 326: dispatch\<close>

record 'f resolved =
  pipeline_config :: "'f dict"
  config_file :: string
  data_config :: "'f pyval"
  data_config_path_of :: string

definition test_run_message :: string where
  "test_run_message = ''This has been a test run, the pipeline and data configuration files should have been written to {0} and {1} respectively. CPAC will not be run.''"

definition dispatch :: "'f runtime \<Rightarrow> args \<Rightarrow> 'f resolved \<Rightarrow> ('f, unit) step" where
  "dispatch rt a s =
     (if level a = Participant then
        and_then (import_cpac rt) (\<lambda>_.
        and_then (lift (seq (getitem (PDict (pipeline_config s)) ''maxCoresPerParticipant'') (py_int rt))) (\<lambda>n.
        and_then (lift (seq (getitem (PDict (pipeline_config s)) ''maximumMemoryPerParticipant'') (py_int rt))) (\<lambda>m.
        and_then (emit (Print ''Starting participant level processing'' [])) (\<lambda>_.
        and_then (emit (EngineRun (config_file s) (data_config_path_of s) n m)) (\<lambda>_.
        call (cpac_run rt) ''CPAC.pipeline.cpac_runner.run'')))))
      else
        emit (Print test_run_message [PStr (config_file s), PStr (data_config_path_of s)]))"

subsection \<open>The whole script\<close>

text \<open>Lines 103 to 218: up to the written pipeline configuration.\<close>

definition configure :: "'f runtime \<Rightarrow> args \<Rightarrow> ('f, 'f dict \<times> string) step" where
  "configure rt a =
     and_then (emit PrintArgs) (\<lambda>_.
     and_then (gui_branch rt a) (\<lambda>_.
     and_then (check_dirs rt a) (\<lambda>_.
     and_then (validate rt a) (\<lambda>_.
     and_then (load_yaml rt (pipeline_file a)) (\<lambda>doc.
     and_then (override_merger rt a doc) (\<lambda>cfg.
     and_then (report a cfg) (\<lambda>_.
     and_then (write_yaml rt (config_file_path rt a) (PDict cfg)) (\<lambda>_.
     ([], Inr (cfg, config_file_path rt a))))))))))"

text \<open>Lines 103 to 227: everything before the data configuration.\<close>

definition before_manifest :: "'f runtime \<Rightarrow> args \<Rightarrow> ('f, 'f dict \<times> string) step" where
  "before_manifest rt a =
     and_then (configure rt a) (\<lambda>cs.
     and_then (group_branch a (snd cs)) (\<lambda>_.
     ([], Inr cs)))"

text \<open>Lines 230 to 307.\<close>

definition resolve_manifest :: "'f runtime \<Rightarrow> args \<Rightarrow> 'f dict \<times> string \<Rightarrow> ('f, 'f resolved) step" where
  "resolve_manifest rt a cs =
     and_then (manifest rt a) (\<lambda>dc.
     and_then (index_selection rt a dc) (\<lambda>sel.
     and_then (write_yaml rt (data_config_path a (snd sel)) (fst sel)) (\<lambda>_.
     ([], Inr \<lparr>pipeline_config = fst cs, config_file = snd cs,
                data_config = fst sel, data_config_path_of = data_config_path a (snd sel)\<rparr>))))"

definition prepare :: "'f runtime \<Rightarrow> args \<Rightarrow> ('f, 'f resolved) step" where
  "prepare rt a = and_then (before_manifest rt a) (resolve_manifest rt a)"

text \<open>The script ends with \<open>sys.exit(0)\<close> (line 326).\<close>

definition main :: "'f runtime \<Rightarrow> args \<Rightarrow> 'f effect list \<times> outcome" where
  "main rt a =
     (case and_then (prepare rt a) (dispatch rt a) of
        (es, Inl out) \<Rightarrow> (es, out)
      | (es, Inr _) \<Rightarrow> (es, Exit 0))"

subsection \<open>Reading a run\<close>

text \<open>The files a run wrote, in order, and whether it called the engine.\<close>

fun written_path :: "'f effect \<Rightarrow> string option" where
  "written_path (WriteYaml p d) = Some p"
| "written_path _ = None"

definition written :: "'f effect list \<Rightarrow> string list" where
  "written es = List.map_filter written_path es"

fun is_engine_run :: "'f effect \<Rightarrow> bool" where
  "is_engine_run (EngineRun c d n m) = True"
| "is_engine_run _ = False"

definition engine_invoked :: "'f effect list \<Rightarrow> bool" where
  "engine_invoked es = list_ex is_engine_run es"

subsection \<open>A sample interpreter and a sample command line\<close>

text \<open>
  Concrete inputs for the examples below. \<open>decimal\<close> reads an optional minus sign and
  decimal digits; the sample floats are reals; the sample file system has the input
  directory \<open>/data\<close>, the output directories \<open>/out\<close> and \<open>/data/s3://x\<close>, a default
  pipeline file and a data configuration file.
\<close>

definition digit_of :: "char \<Rightarrow> nat option" where
  "digit_of c = map_of (zip ''0123456789'' [0, 1, 2, 3, 4, 5, 6, 7, 8, 9]) c"

fun digits_value :: "nat \<Rightarrow> string \<Rightarrow> nat option" where
  "digits_value acc [] = Some acc"
| "digits_value acc (c # cs) =
     (case digit_of c of None \<Rightarrow> None | Some k \<Rightarrow> digits_value (10 * acc + k) cs)"

definition decimal :: "string \<Rightarrow> int option" where
  "decimal s =
     (case s of
        [] \<Rightarrow> None
      | c # cs \<Rightarrow>
          if c = CHR ''-'' then (if cs = [] then None else map_option (\<lambda>n. - int n) (digits_value 0 cs))
          else map_option int (digits_value 0 s))"

definition sample_pipeline :: "real pyval" where
  "sample_pipeline =
     PDict [(''workingDirectory'', PStr ''/tmp/work''),
            (''removeWorkingDir'', PBool False),
            (''num_ants_threads'', PInt 8)]"

definition sample_manifest :: "real pyval" where
  "sample_manifest = PDict [(''subjectList'', PList [PStr ''sub-01'', PStr ''sub-02''])]"

definition sample_rt :: "real runtime" where
  "sample_rt =
     \<lparr>int_of_str = decimal,
      float_of_str = (\<lambda>s. map_option real_of_int (decimal s)),
      int_of_float = (\<lambda>x. Some (if 0 \<le> x then \<lfloor>x\<rfloor> else \<lceil>x\<rceil>)),
      float_div = (\<lambda>x y. x / y),
      float_1024 = 1024,
      float_6 = 6,
      path_exists = (\<lambda>p. p = ''/data'' \<or> p = ''/out'' \<or> p = ''/data/s3://x''),
      path_isfile = (\<lambda>p. False),
      realpath = (\<lambda>p. p),
      yaml_load = (\<lambda>p. if p = ''/cpac_resources/default_pipeline.yaml'' then Some sample_pipeline
                         else if p = ''/data/manifest.yml'' then Some sample_manifest
                         else None),
      open_w = (\<lambda>p. True),
      now = ''20180301120000'',
      gui_run = Returns,
      run_command = (\<lambda>c. Returns),
      bids_layout = (\<lambda>p. True),
      get_subjects = (\<lambda>p. Some [''01'', ''02'', ''03'']),
      cpac_import = True,
      cpac_run = Returns\<rparr>"

definition sample_args :: args where
  "sample_args =
     \<lparr>bids_dir = ''/data'',
      output_dir = ''/out'',
      level = Test_config,
      pipeline_file = ''/cpac_resources/default_pipeline.yaml'',
      data_config_file = None,
      aws_input_creds = None,
      aws_output_creds = None,
      n_cpus = ''1'',
      mem_mb = None,
      mem_gb = None,
      save_working_dir = False,
      disable_file_logging = False,
      participant_label = None,
      participant_ndx = None,
      bids_validator_config = None,
      skip_bids_validator = True\<rparr>"

subsection \<open>The classification of the output directory, in the words of the specification\<close>

text \<open>
  The specification's reading, for comparison with the script: the output is remote
  when its lower-cased name contains \<open>s3://\<close> somewhere (\<open>sublist\<close> is the
  library's contiguous sublist), the input when its lower-cased name starts with it;
  files that cannot go to a remote output go to \<open>/scratch\<close>.
\<close>

definition spec_remote_output :: "args \<Rightarrow> bool" where
  "spec_remote_output a = sublist ''s3://'' (lower (output_dir a))"

definition spec_remote_input :: "args \<Rightarrow> bool" where
  "spec_remote_input a = prefix ''s3://'' (lower (bids_dir a))"

definition spec_artifact_root :: "args \<Rightarrow> string" where
  "spec_artifact_root a = (if spec_remote_output a then ''/scratch'' else output_dir a)"

section \<open>Properties\<close>

subsection \<open>Strings, dictionaries, sequencing\<close>

lemma map_of_setitem [simp]: "map_of (setitem d k v) = (map_of d)(k \<mapsto> v)"
  by (induction d) auto

lemma startswith_prefix: "startswith s p = prefix p s"
  by (induction s p rule: startswith.induct) auto

lemma str_in_sublist: "str_in sub s = sublist sub s"
  by (induction s) (auto simp: startswith_prefix sublist_Cons_right)

lemma and_then_Inr:
  "and_then m f = (es, Inr b) \<longleftrightarrow>
     (\<exists>es1 a es2. m = (es1, Inr a) \<and> f a = (es2, Inr b) \<and> es = es1 @ es2)"
  by (cases m) (auto simp: and_then_def split: sum.splits prod.splits)

lemma lift_Inr: "lift r = (es, Inr a) \<longleftrightarrow> r = Inr a \<and> es = []"
  by (auto simp: lift_def split: sum.splits)

lemma seq_Inr: "seq r f = Inr b \<longleftrightarrow> (\<exists>a. r = Inr a \<and> f a = Inr b)"
  by (auto simp: seq_def split: sum.splits)

subsection \<open>The merged pipeline configuration\<close>

lemma set_directories_Inr:
  "set_directories a doc = Inr d \<Longrightarrow>
   \<exists>d0. doc = PDict d0 \<and>
     map_of d = (map_of d0)
       (''outputDirectory'' \<mapsto> PStr (path_join (output_dir a) ''output''),
        ''crashLogDirectory'' \<mapsto>
          PStr (path_join (if str_in ''s3://'' (lower (output_dir a)) then ''/scratch''
                           else output_dir a) ''crash''),
        ''logDirectory'' \<mapsto>
          PStr (path_join (if str_in ''s3://'' (lower (output_dir a)) then ''/scratch''
                           else output_dir a) ''log''))"
  by (auto simp: set_directories_def Let_def split: pyval.splits if_splits)

lemma resolve_cores_Inr:
  "resolve_cores rt a d = Inr d' \<Longrightarrow>
   \<exists>n t k. int_of_str rt (n_cpus a) = Some n \<and> map_of d ''num_ants_threads'' = Some t \<and>
     py_int rt t = Inr k \<and>
     map_of d' = (map_of d)
       (''maxCoresPerParticipant'' \<mapsto> PInt n, ''numParticipantsAtOnce'' \<mapsto> PInt 1,
        ''num_ants_threads'' \<mapsto> PInt (min n k))"
  by (auto simp: resolve_cores_def seq_Inr py_int_str_def getitem_def Let_def split: option.splits)

lemma set_credentials_Inr:
  "set_credentials rt a d = Inr d' \<Longrightarrow> k \<noteq> ''awsCredentialsFile'' \<Longrightarrow>
   k \<noteq> ''awsOutputBucketCredentials'' \<Longrightarrow> map_of d' k = map_of d k"
  by (auto simp: set_credentials_def seq_Inr split: option.splits if_splits)

lemma map_of_set_logging:
  "map_of (set_logging a d) = (map_of d)(''disable_log'' \<mapsto> PBool (disable_file_logging a))"
  by (auto simp: set_logging_def)

lemma set_working_dir_result:
  "set_working_dir a d = (es, Inr cfg) \<Longrightarrow>
   (if save_working_dir a \<and> str_in ''s3://'' (lower (output_dir a))
    then es = [Print s3_warning []] \<and> cfg = d
    else es = [] \<and> map_of cfg = (map_of d)
        (''removeWorkingDir'' \<mapsto> PBool (\<not> save_working_dir a),
         ''workingDirectory'' \<mapsto> PStr (path_join (if save_working_dir a then output_dir a else ''/scratch'') ''working'')))"
  by (auto simp: set_working_dir_def split: if_splits)

lemma override_merger_Inr:
  assumes "override_merger rt a doc = (es, Inr cfg)"
  shows "\<exists>d1 m d2 d3. set_directories a doc = Inr d1 \<and> resolve_memory rt a = Inr m \<and>
     resolve_cores rt a (setitem d1 ''maximumMemoryPerParticipant'' (PFloat m)) = Inr d2 \<and>
     set_credentials rt a d2 = Inr d3 \<and> set_working_dir a (set_logging a d3) = (es, Inr cfg)"
  using assms by (auto simp: override_merger_def and_then_Inr lift_Inr seq_Inr)

lemma merged_config:
  assumes "override_merger rt a doc = (es, Inr cfg)"
  shows "\<exists>d0 m n t k.
     doc = PDict d0 \<and> resolve_memory rt a = Inr m \<and> int_of_str rt (n_cpus a) = Some n \<and>
     map_of d0 ''num_ants_threads'' = Some t \<and> py_int rt t = Inr k \<and>
     map_of cfg ''maximumMemoryPerParticipant'' = Some (PFloat m) \<and>
     map_of cfg ''disable_log'' = Some (PBool (disable_file_logging a)) \<and>
     map_of cfg ''maxCoresPerParticipant'' = Some (PInt n) \<and>
     map_of cfg ''num_ants_threads'' = Some (PInt (min n k)) \<and>
     map_of cfg ''crashLogDirectory'' =
       Some (PStr (path_join (if str_in ''s3://'' (lower (output_dir a)) then ''/scratch'' else output_dir a) ''crash'')) \<and>
     map_of cfg ''logDirectory'' =
       Some (PStr (path_join (if str_in ''s3://'' (lower (output_dir a)) then ''/scratch'' else output_dir a) ''log'')) \<and>
     (if save_working_dir a \<and> str_in ''s3://'' (lower (output_dir a))
      then es = [Print s3_warning []] \<and>
           map_of cfg ''removeWorkingDir'' = map_of d0 ''removeWorkingDir'' \<and>
           map_of cfg ''workingDirectory'' = map_of d0 ''workingDirectory''
      else es = [] \<and>
           map_of cfg ''removeWorkingDir'' = Some (PBool (\<not> save_working_dir a)) \<and>
           map_of cfg ''workingDirectory'' =
             Some (PStr (path_join (if save_working_dir a then output_dir a else ''/scratch'') ''working'')))"
proof -
  from override_merger_Inr[OF assms] obtain d1 m d2 d3 where
    s1: "set_directories a doc = Inr d1" and s2: "resolve_memory rt a = Inr m" and
    s3: "resolve_cores rt a (setitem d1 ''maximumMemoryPerParticipant'' (PFloat m)) = Inr d2" and
    s4: "set_credentials rt a d2 = Inr d3" and s5: "set_working_dir a (set_logging a d3) = (es, Inr cfg)"
    by blast
  from set_directories_Inr[OF s1] obtain d0 where d0: "doc = PDict d0" and m1: "map_of d1 = (map_of d0)
       (''outputDirectory'' \<mapsto> PStr (path_join (output_dir a) ''output''),
        ''crashLogDirectory'' \<mapsto>
          PStr (path_join (if str_in ''s3://'' (lower (output_dir a)) then ''/scratch''
                           else output_dir a) ''crash''),
        ''logDirectory'' \<mapsto>
          PStr (path_join (if str_in ''s3://'' (lower (output_dir a)) then ''/scratch''
                           else output_dir a) ''log''))"
    by blast
  from resolve_cores_Inr[OF s3] obtain n t k where
    n: "int_of_str rt (n_cpus a) = Some n" and t: "map_of (setitem d1 ''maximumMemoryPerParticipant'' (PFloat m)) ''num_ants_threads'' = Some t"
    and k: "py_int rt t = Inr k" and m2: "map_of d2 = (map_of (setitem d1 ''maximumMemoryPerParticipant'' (PFloat m)))
       (''maxCoresPerParticipant'' \<mapsto> PInt n, ''numParticipantsAtOnce'' \<mapsto> PInt 1,
        ''num_ants_threads'' \<mapsto> PInt (min n k))" by blast
  have m3: "\<And>key. key \<noteq> ''awsCredentialsFile'' \<Longrightarrow> key \<noteq> ''awsOutputBucketCredentials'' \<Longrightarrow> map_of d3 key = map_of d2 key"
    using set_credentials_Inr[OF s4] by blast
  from t have t0: "map_of d0 ''num_ants_threads'' = Some t" by (simp add: m1)
  note look = map_of_set_logging m3 m2 m1
  show ?thesis
  proof (cases "save_working_dir a \<and> str_in ''s3://'' (lower (output_dir a))")
    case True
    with set_working_dir_result[OF s5] have e: "es = [Print s3_warning []]" and c: "cfg = set_logging a d3" by simp_all
    show ?thesis using d0 s2 n t0 k True e unfolding c
      by (simp add: look)
  next
    case False
    with set_working_dir_result[OF s5] have e: "es = []" and c: "map_of cfg = (map_of (set_logging a d3))
        (''removeWorkingDir'' \<mapsto> PBool (\<not> save_working_dir a),
         ''workingDirectory'' \<mapsto> PStr (path_join (if save_working_dir a then output_dir a else ''/scratch'') ''working''))" 
      by presburger+
    show ?thesis using d0 s2 n t0 k False e unfolding c
      by (simp add: look)
  qed
qed

subsection \<open>The steps of a run that goes on\<close>

lemma written_Nil [simp]: "written [] = []"
  by (simp add: written_def)

lemma written_Cons [simp]:
  "written (e # es) = (case written_path e of Some p \<Rightarrow> p # written es | None \<Rightarrow> written es)"
  by (simp add: written_def split: option.splits)

lemma written_append [simp]: "written (xs @ ys) = written xs @ written ys"
  by (induction xs) (auto split: option.splits)

lemma engine_invoked_Nil [simp]: "engine_invoked [] = False"
  by (simp add: engine_invoked_def)

lemma engine_invoked_Cons [simp]: "engine_invoked (e # es) = (is_engine_run e \<or> engine_invoked es)"
  by (simp add: engine_invoked_def)

lemma engine_invoked_append [simp]: "engine_invoked (xs @ ys) = (engine_invoked xs \<or> engine_invoked ys)"
  by (simp add: engine_invoked_def)

lemma and_then_run:
  "m = (es1, Inr x) \<Longrightarrow> and_then m f = (es1 @ fst (f x), snd (f x))"
  by (simp add: and_then_def split: prod.splits)


lemma gui_branch_Inr: "gui_branch rt a = (es, Inr u) \<Longrightarrow> es = [] \<and> level a \<noteq> GUI"
  by (auto simp: gui_branch_def and_then_Inr split: if_splits)

lemma check_dirs_Inr:
  "check_dirs rt a = (es, Inr u) \<Longrightarrow> es = []"
  by (auto simp: check_dirs_def split: if_splits)

lemma validate_Inr: "validate rt a = (es, Inr u) \<Longrightarrow> written es = [] \<and> \<not> engine_invoked es"
  by (auto simp: validate_def run_def and_then_Inr emit_def call_def split: option.splits if_splits call_result.splits)

lemma load_yaml_Inr: "load_yaml rt p = (es, Inr doc) \<Longrightarrow> es = [] \<and> yaml_load rt (realpath rt p) = Some doc"
  by (auto simp: load_yaml_def split: option.splits)

lemma override_merger_effects:
  "override_merger rt a doc = (es, Inr cfg) \<Longrightarrow> written es = [] \<and> \<not> engine_invoked es"
  using merged_config[of rt a doc es cfg] by (auto split: if_splits)

lemma print_key_Inr:
  "print_key fmt d k = (es, Inr u) \<Longrightarrow> (\<exists>v. map_of d k = Some v \<and> es = [Print fmt [v]])"
  by (auto simp: print_key_def and_then_Inr lift_Inr emit_def getitem_def split: option.splits)

lemma report_Inr:
  assumes "report a d = (es, Inr u)"
  shows "written es = [] \<and> \<not> engine_invoked es \<and>
     (\<exists>v. map_of d ''workingDirectory'' = Some v) \<and> (\<exists>v. map_of d ''removeWorkingDir'' = Some v)"
  using assms unfolding report_def and_then_Inr
  by (auto dest!: print_key_Inr simp: emit_def split: option.splits)

lemma write_yaml_Inr: "write_yaml rt p d = (es, Inr u) \<longleftrightarrow> open_w rt p \<and> es = [WriteYaml p d]"
  by (auto simp: write_yaml_def)

lemma group_branch_Inr: "group_branch a c = (es, Inr u) \<longleftrightarrow> level a \<noteq> Group \<and> es = []"
  by (auto simp: group_branch_def)

lemma configure_Inr:
  assumes "configure rt a = (es, Inr cs)"
  shows "level a \<noteq> GUI \<and> snd cs = config_file_path rt a \<and>
     written es = [config_file_path rt a] \<and> \<not> engine_invoked es \<and>
     (\<exists>es0. es = es0 @ [WriteYaml (config_file_path rt a) (PDict (fst cs))]) \<and>
     (\<exists>doc esm. yaml_load rt (realpath rt (pipeline_file a)) = Some doc \<and>
         override_merger rt a doc = (esm, Inr (fst cs))) \<and>
     (\<exists>v. map_of (fst cs) ''workingDirectory'' = Some v) \<and>
     (\<exists>v. map_of (fst cs) ''removeWorkingDir'' = Some v)"
proof -
  from assms obtain e1 e2 e3 e4 e5 e6 e7 doc cfg where
    g: "gui_branch rt a = (e1, Inr ())" and c: "check_dirs rt a = (e2, Inr ())" and
    v: "validate rt a = (e3, Inr ())" and l: "load_yaml rt (pipeline_file a) = (e4, Inr doc)" and
    m: "override_merger rt a doc = (e5, Inr cfg)" and r: "report a cfg = (e6, Inr ())" and
    w: "write_yaml rt (config_file_path rt a) (PDict cfg) = (e7, Inr ())" and
    cs: "cs = (cfg, config_file_path rt a)" and
    es: "es = [PrintArgs] @ e1 @ e2 @ e3 @ e4 @ e5 @ e6 @ e7"
    unfolding configure_def and_then_Inr emit_def by auto
  from gui_branch_Inr[OF g] check_dirs_Inr[OF c] validate_Inr[OF v] load_yaml_Inr[OF l]
    override_merger_effects[OF m] report_Inr[OF r] w m
  show ?thesis unfolding es cs write_yaml_Inr
    by auto
qed

lemma before_manifest_Inr:
  assumes "before_manifest rt a = (es, Inr cs)"
  shows "configure rt a = (es, Inr cs) \<and> level a \<noteq> Group"
  using assms unfolding before_manifest_def and_then_Inr group_branch_Inr by auto

lemma scan_path_fails:
  "scan_path rt a =
     ([], Inl (Raised (if bids_layout rt (bids_dir a) then NameError ''dataFormat''
                       else CollaboratorError ''BIDSLayout'')))"
  by (simp add: scan_path_def and_then_def lift_def module_names_def)

lemma index_selection_Inr:
  assumes "index_selection rt a dc = (es, Inr sel)"
  shows "es = [] \<and>
     snd sel = ''cpac_data_config_'' @
       (case given (participant_ndx a) of None \<Rightarrow> [] | Some ndx \<Rightarrow> ''pt'' @ ndx @ ''_'') @
       now rt @ ''.yml''"
  using assms
  by (auto simp: index_selection_def and_then_Inr lift_Inr split: option.splits if_splits)


lemma index_selection_on_list:
  assumes "given (participant_ndx a) = Some x" "int_of_str rt x = Some i"
    "getitem dc ''subjectList'' = Inr (PList xs)"
  shows "index_selection rt a dc =
     (if 0 \<le> i \<and> i < int (length xs) then ([], Inl (Raised TypeError))
      else ([Print ''Participant ndx {0} is out of bounds [0,{1})'' [PInt i, PInt (int (length xs))]],
            Inl (Exit 1)))"
  using assms
  by (auto simp: index_selection_def and_then_def lift_def seq_def py_int_str_def py_len_def getitem_def)

lemma manifest_Inr:
  "manifest rt a = (es, Inr dc) \<Longrightarrow>
   es = [] \<and> (\<exists>p. given (data_config_file a) = Some p \<and> yaml_load rt (realpath rt p) = Some dc)"
  by (auto simp: manifest_def scan_path_fails load_yaml_def split: option.splits)

lemma resolve_manifest_Inr:
  assumes "resolve_manifest rt a cs = (es, Inr s)"
  shows "(\<exists>p. given (data_config_file a) = Some p) \<and>
     pipeline_config s = fst cs \<and> config_file s = snd cs \<and>
     data_config_path_of s = data_config_path a (''cpac_data_config_'' @
       (case given (participant_ndx a) of None \<Rightarrow> [] | Some ndx \<Rightarrow> ''pt'' @ ndx @ ''_'') @
       now rt @ ''.yml'') \<and>
     es = [WriteYaml (data_config_path_of s) (data_config s)]"
proof -
  from assms obtain e1 e2 e3 dc sel where
    m: "manifest rt a = (e1, Inr dc)" and i: "index_selection rt a dc = (e2, Inr sel)" and
    w: "write_yaml rt (data_config_path a (snd sel)) (fst sel) = (e3, Inr ())" and
    s: "s = \<lparr>pipeline_config = fst cs, config_file = snd cs, data_config = fst sel,
             data_config_path_of = data_config_path a (snd sel)\<rparr>" and
    es: "es = e1 @ e2 @ e3"
    unfolding resolve_manifest_def and_then_Inr by auto
  from manifest_Inr[OF m] index_selection_Inr[OF i] w
  show ?thesis unfolding es s write_yaml_Inr by auto
qed

lemma prepare_Inr:
  assumes "prepare rt a = (es, Inr s)"
  shows "\<exists>es1 es2 cs. before_manifest rt a = (es1, Inr cs) \<and>
     resolve_manifest rt a cs = (es2, Inr s) \<and> es = es1 @ es2"
  using assms unfolding prepare_def and_then_Inr by blast

lemma prepare_facts:
  assumes "prepare rt a = (es, Inr s)"
  shows "level a \<noteq> GUI \<and> level a \<noteq> Group \<and>
     (\<exists>p. given (data_config_file a) = Some p) \<and>
     config_file s = config_file_path rt a \<and>
     data_config_path_of s = data_config_path a (''cpac_data_config_'' @
       (case given (participant_ndx a) of None \<Rightarrow> [] | Some ndx \<Rightarrow> ''pt'' @ ndx @ ''_'') @
       now rt @ ''.yml'') \<and>
     (\<exists>es0. es = es0 @ [WriteYaml (config_file s) (PDict (pipeline_config s)),
                         WriteYaml (data_config_path_of s) (data_config s)]) \<and>
     written es = [config_file s, data_config_path_of s] \<and>
     \<not> engine_invoked es \<and>
     (\<exists>doc esm. override_merger rt a doc = (esm, Inr (pipeline_config s)))"
proof -
  from prepare_Inr[OF assms] obtain es1 es2 cs where
    b: "before_manifest rt a = (es1, Inr cs)" and r: "resolve_manifest rt a cs = (es2, Inr s)" and
    es: "es = es1 @ es2" by blast
  from before_manifest_Inr[OF b] have c: "configure rt a = (es1, Inr cs)" and g: "level a \<noteq> Group"
    by simp_all
  from configure_Inr[OF c] resolve_manifest_Inr[OF r] g
  show ?thesis unfolding es by auto
qed

lemma main_after_prepare:
  assumes "prepare rt a = (es, Inr s)" "level a \<noteq> Participant"
  shows "main rt a =
     (es @ [Print test_run_message [PStr (config_file s), PStr (data_config_path_of s)]], Exit 0)"
  using assms by (simp add: main_def and_then_def dispatch_def emit_def)

lemma main_stops:
  assumes "prepare rt a = (es, Inl out)"
  shows "main rt a = (es, out)"
  using assms by (simp add: main_def and_then_def)

lemma main_on_scan_path:
  assumes "given (data_config_file a) = None" and "before_manifest rt a = (es, Inr cs)"
  shows "prepare rt a =
       (es, Inl (Raised (if bids_layout rt (bids_dir a) then NameError ''dataFormat''
                         else CollaboratorError ''BIDSLayout'')))"
    and "main rt a =
       (es, Raised (if bids_layout rt (bids_dir a) then NameError ''dataFormat''
                    else CollaboratorError ''BIDSLayout''))"
proof -
  have m: "manifest rt a = scan_path rt a"
    using assms(1) by (simp add: manifest_def)
  have r: "resolve_manifest rt a cs =
     ([], Inl (Raised (if bids_layout rt (bids_dir a) then NameError ''dataFormat''
                       else CollaboratorError ''BIDSLayout'')))"
    unfolding resolve_manifest_def m by (simp add: scan_path_fails and_then_def)
  show p: "prepare rt a =
     (es, Inl (Raised (if bids_layout rt (bids_dir a) then NameError ''dataFormat''
                       else CollaboratorError ''BIDSLayout'')))"
    unfolding prepare_def by (simp add: and_then_run[OF assms(2)] r)
  show "main rt a =
       (es, Raised (if bids_layout rt (bids_dir a) then NameError ''dataFormat''
                    else CollaboratorError ''BIDSLayout''))"
    using main_stops[OF p] .
qed






subsection \<open>Evaluating the samples\<close>

lemmas sample_defs = sample_rt_def sample_args_def sample_pipeline_def sample_manifest_def decimal_def digit_of_def
lemmas run_defs = main_def prepare_def before_manifest_def configure_def resolve_manifest_def
  dispatch_def emit_def call_def import_cpac_def gui_branch_def check_dirs_def run_def validate_def
  load_yaml_def print_key_def report_def config_file_path_def write_yaml_def group_branch_def
  manifest_def scan_path_def module_names_def select_subjects_def set_method_def require_subjects_def
  index_selection_def data_config_path_def given_list_def py_len_def lstrip_def

lemmas merger_defs = override_merger_def and_then_def lift_def seq_def set_directories_def resolve_memory_def resolve_cores_def
  set_credentials_def set_logging_def set_working_dir_def given_def py_float_def py_int_str_def py_int_def getitem_def
  path_join_def lower_def lower_char_def

subsection \<open>Memory\<close>

text \<open>
  Claim C4. In every merged configuration the entry \<open>maximumMemoryPerParticipant\<close> is
  the float of \<open>--mem_gb\<close> when that option is given (whether or not \<open>--mem_mb\<close> is
  given too); otherwise the float of \<open>--mem_mb\<close> divided by \<open>1024.0\<close> when that one
  is given; otherwise \<open>6.0\<close>. An option is given when it is present and not the empty
  string, which is what \<open>if args.mem_gb:\<close> tests.
\<close>

theorem memory_resolution:
  assumes "override_merger rt a doc = (es, Inr cfg)"
  shows "map_of cfg ''maximumMemoryPerParticipant'' =
     (case given (mem_gb a) of
        Some g \<Rightarrow> map_option PFloat (float_of_str rt g)
      | None \<Rightarrow>
          (case given (mem_mb a) of
             Some m \<Rightarrow> map_option (\<lambda>v. PFloat (float_div rt v (float_1024 rt))) (float_of_str rt m)
           | None \<Rightarrow> Some (PFloat (float_6 rt))))"
proof -
  from merged_config[OF assms] obtain m where
    m: "resolve_memory rt a = Inr m" and c: "map_of cfg ''maximumMemoryPerParticipant'' = Some (PFloat m)"
    by blast
  from m show ?thesis unfolding c
    by (auto simp: resolve_memory_def py_float_def seq_Inr split: option.splits)
qed

text \<open>
  Both options given: \<open>--mem_gb 4 --mem_mb 2048\<close> resolves to 4, not 2. Only
  \<open>--mem_mb 2048\<close>: 2048 / 1024. Neither: 6.
\<close>

theorem memory_resolution_witness:
  "(\<exists>es cfg. override_merger sample_rt (sample_args\<lparr>mem_gb := Some ''4'', mem_mb := Some ''2048''\<rparr>) sample_pipeline = (es, Inr cfg)
       \<and> map_of cfg ''maximumMemoryPerParticipant'' = Some (PFloat 4))
   \<and> (\<exists>es cfg. override_merger sample_rt (sample_args\<lparr>mem_mb := Some ''2048''\<rparr>) sample_pipeline = (es, Inr cfg)
       \<and> map_of cfg ''maximumMemoryPerParticipant'' = Some (PFloat (2048 / 1024)))
   \<and> (\<exists>es cfg. override_merger sample_rt sample_args sample_pipeline = (es, Inr cfg)
       \<and> map_of cfg ''maximumMemoryPerParticipant'' = Some (PFloat 6))"
proof -
  have both: "override_merger sample_rt (sample_args\<lparr>mem_gb := Some ''4'', mem_mb := Some ''2048''\<rparr>) sample_pipeline =
     ([], Inr [(''workingDirectory'', PStr ''/scratch/working''), (''removeWorkingDir'', PBool True),
               (''num_ants_threads'', PInt 1), (''outputDirectory'', PStr ''/out/output''),
               (''crashLogDirectory'', PStr ''/out/crash''), (''logDirectory'', PStr ''/out/log''),
               (''maximumMemoryPerParticipant'', PFloat 4), (''maxCoresPerParticipant'', PInt 1),
               (''numParticipantsAtOnce'', PInt 1), (''disable_log'', PBool False)])"
    by (simp add: merger_defs sample_defs)
  have mb: "override_merger sample_rt (sample_args\<lparr>mem_mb := Some ''2048''\<rparr>) sample_pipeline =
     ([], Inr [(''workingDirectory'', PStr ''/scratch/working''), (''removeWorkingDir'', PBool True),
               (''num_ants_threads'', PInt 1), (''outputDirectory'', PStr ''/out/output''),
               (''crashLogDirectory'', PStr ''/out/crash''), (''logDirectory'', PStr ''/out/log''),
               (''maximumMemoryPerParticipant'', PFloat 2), (''maxCoresPerParticipant'', PInt 1),
               (''numParticipantsAtOnce'', PInt 1), (''disable_log'', PBool False)])"
    by (simp add: merger_defs sample_defs)
  have none: "override_merger sample_rt sample_args sample_pipeline =
     ([], Inr [(''workingDirectory'', PStr ''/scratch/working''), (''removeWorkingDir'', PBool True),
               (''num_ants_threads'', PInt 1), (''outputDirectory'', PStr ''/out/output''),
               (''crashLogDirectory'', PStr ''/out/crash''), (''logDirectory'', PStr ''/out/log''),
               (''maximumMemoryPerParticipant'', PFloat 6), (''maxCoresPerParticipant'', PInt 1),
               (''numParticipantsAtOnce'', PInt 1), (''disable_log'', PBool False)])"
    by (simp add: merger_defs sample_defs)
  show ?thesis
    using memory_resolution[OF both] memory_resolution[OF mb] memory_resolution[OF none]
    unfolding both mb none
    by (simp add: sample_defs given_def)
qed

subsection \<open>Cores and ANTs threads\<close>

text \<open>
  Claim C5. When \<open>--n_cpus\<close> reads as the integer \<open>n\<close> and the loaded configuration
  has \<open>num_ants_threads\<close> reading as \<open>d\<close>, the merged configuration has
  \<open>maxCoresPerParticipant = n\<close> and \<open>num_ants_threads = min(n, d)\<close>, which is never
  more than \<open>n\<close>.
\<close>

theorem cores_and_ants_threads:
  assumes "override_merger rt a doc = (es, Inr cfg)"
    and "int_of_str rt (n_cpus a) = Some n"
    and "getitem doc ''num_ants_threads'' = Inr t"
    and "py_int rt t = Inr d"
  shows "map_of cfg ''maxCoresPerParticipant'' = Some (PInt n) \<and>
         map_of cfg ''num_ants_threads'' = Some (PInt (min n d)) \<and>
         min n d \<le> n"
proof -
  from merged_config[OF assms(1)] obtain d0 n' t' k where
    "doc = PDict d0" "int_of_str rt (n_cpus a) = Some n'" "map_of d0 ''num_ants_threads'' = Some t'"
    "py_int rt t' = Inr k" "map_of cfg ''maxCoresPerParticipant'' = Some (PInt n')"
    "map_of cfg ''num_ants_threads'' = Some (PInt (min n' k))"
    by blast
  with assms(2-4) show ?thesis
    by (auto simp: getitem_def)
qed

text \<open>The scenario \<open>n_cpus = 4\<close> with a configured default of 8 threads resolves to 4.\<close>

theorem cores_and_ants_threads_witness:
  "\<exists>es cfg. override_merger sample_rt (sample_args\<lparr>n_cpus := ''4''\<rparr>) sample_pipeline = (es, Inr cfg)
     \<and> int_of_str sample_rt ''4'' = Some 4
     \<and> getitem sample_pipeline ''num_ants_threads'' = Inr (PInt 8)
     \<and> map_of cfg ''maxCoresPerParticipant'' = Some (PInt 4)
     \<and> map_of cfg ''num_ants_threads'' = Some (PInt 4)"
proof -
  have run: "override_merger sample_rt (sample_args\<lparr>n_cpus := ''4''\<rparr>) sample_pipeline =
     ([], Inr [(''workingDirectory'', PStr ''/scratch/working''), (''removeWorkingDir'', PBool True),
               (''num_ants_threads'', PInt 4), (''outputDirectory'', PStr ''/out/output''),
               (''crashLogDirectory'', PStr ''/out/crash''), (''logDirectory'', PStr ''/out/log''),
               (''maximumMemoryPerParticipant'', PFloat 6), (''maxCoresPerParticipant'', PInt 4),
               (''numParticipantsAtOnce'', PInt 1), (''disable_log'', PBool False)])"
    by (simp add: merger_defs sample_defs)
  have n: "int_of_str sample_rt (n_cpus (sample_args\<lparr>n_cpus := ''4''\<rparr>)) = Some 4"
    by (simp add: sample_defs)
  have t: "getitem sample_pipeline ''num_ants_threads'' = Inr (PInt 8)"
    by (simp add: sample_defs getitem_def)
  have d: "py_int sample_rt (PInt 8) = Inr 8"
    by (simp add: py_int_def)
  show ?thesis
    using cores_and_ants_threads[OF run n t d] n t unfolding run
    by simp
qed

subsection \<open>Keeping the working directory\<close>




subsection \<open>The scan path\<close>

text \<open>
  Claim C9, as the script has it. On every run without a data configuration file that
  reaches line 230, and whose \<open>BIDSLayout\<close> is built, evaluating the dictionary
  display of lines 234 to 239 raises \<open>NameError\<close> for \<open>dataFormat\<close>: its keys are
  bare identifiers that are bound nowhere. The run ends there, before subjects are
  listed or filtered, before a data configuration file is written and before the
  engine is called; the one file it has written is the pipeline configuration file, at
  line 217. No such run reaches the dispatcher.
\<close>

theorem scan_path_never_succeeds:
  assumes "given (data_config_file a) = None" and "before_manifest rt a = (es, Inr cs)"
  shows "scan_path rt a =
       ([], Inl (Raised (if bids_layout rt (bids_dir a) then NameError ''dataFormat''
                         else CollaboratorError ''BIDSLayout''))) \<and>
     main rt a =
       (es, Raised (if bids_layout rt (bids_dir a) then NameError ''dataFormat''
                    else CollaboratorError ''BIDSLayout'')) \<and>
     written (fst (main rt a)) = [config_file_path rt a] \<and>
     \<not> engine_invoked (fst (main rt a)) \<and>
     (\<forall>es' s. prepare rt a \<noteq> (es', Inr s))"
proof -
  note p = main_on_scan_path[OF assms]
  from before_manifest_Inr[OF assms(2)] have c: "configure rt a = (es, Inr cs)" by simp
  have w: "written es = [config_file_path rt a]" and e: "\<not> engine_invoked es"
    using configure_Inr[OF c] by simp_all
  show ?thesis
    using p w e by (simp add: scan_path_fails)
qed

theorem scan_path_never_succeeds_witness:
  "given (data_config_file sample_args) = None \<and>
   (\<exists>es cs. before_manifest sample_rt sample_args = (es, Inr cs)) \<and>
   snd (main sample_rt sample_args) = Raised (NameError ''dataFormat'') \<and>
   written (fst (main sample_rt sample_args)) = [''/out/cpac_pipeline_config_20180301120000.yml'']"
proof -
  have g: "given (data_config_file sample_args) = None"
    by (simp add: sample_defs given_def)
  have "\<exists>es cs. before_manifest sample_rt sample_args = (es, Inr cs)"
    by (simp add: run_defs merger_defs sample_defs)
  then obtain es cs where b: "before_manifest sample_rt sample_args = (es, Inr cs)"
    by blast
  have l: "bids_layout sample_rt (bids_dir sample_args)"
    by (simp add: sample_defs)
  have c: "config_file_path sample_rt sample_args = ''/out/cpac_pipeline_config_20180301120000.yml''"
    by (simp add: config_file_path_def path_join_def lower_def lower_char_def sample_defs)
  show ?thesis
    using scan_path_never_succeeds[OF g b] g b l c by auto
qed

text \<open>
  The sample run on the scan path has written the pipeline configuration file by the
  time it fails: the failure does not come before every write.
\<close>

theorem pipeline_config_written_before_failure:
  "written (fst (main sample_rt sample_args)) = [''/out/cpac_pipeline_config_20180301120000.yml''] \<and>
   snd (main sample_rt sample_args) = Raised (NameError ''dataFormat'')"
  by (simp add: run_defs merger_defs sample_defs)

text \<open>
  Claim C1, at its own scenario: the data set has the subjects 01, 02 and 03 and the
  command line has \<open>--participant_label 02 04\<close>. The run raises \<open>NameError\<close> at
  line 234 and resolves no subject list. Lines 244 to 262 on their own raise
  \<open>AttributeError\<close> at line 247, since a set has no method \<open>intersect\<close>. And
  \<open>lstrip('sub-')\<close> strips characters, not the prefix: \<open>sub-bus01\<close> becomes \<open>01\<close>.
\<close>

theorem label_filtering_raises:
  "snd (main sample_rt (sample_args\<lparr>participant_label := Some [''02'', ''04'']\<rparr>)) =
     Raised (NameError ''dataFormat'') \<and>
   (select_subjects [''01'', ''02'', ''03''] (Some [''02'', ''04'']) :: (real, string list) step) =
     ([], Inl (Raised (AttributeError ''intersect''))) \<and>
   lstrip ''sub-'' ''sub-bus01'' = ''01''"
  by (simp add: run_defs merger_defs sample_defs)

text \<open>
  Claim C6, on a data set without subjects: the run raises \<open>NameError\<close> at line 234
  and never prints the diagnostic of line 265, which lines 264 to 266 would print on
  an empty list.
\<close>

theorem empty_subject_list_raises:
  "snd (main (sample_rt\<lparr>get_subjects := (\<lambda>p. Some [])\<rparr>) sample_args) = Raised (NameError ''dataFormat'') \<and>
   Print ''Did not find any files to process'' [] \<notin> set (fst (main (sample_rt\<lparr>get_subjects := (\<lambda>p. Some [])\<rparr>) sample_args)) \<and>
   (require_subjects [] :: (real, unit) step) = ([Print ''Did not find any files to process'' []], Inl (Exit 1))"
  by (simp add: run_defs merger_defs sample_defs)

subsection \<open>Index selection\<close>

text \<open>
  Claim C3, on a data configuration file with the subject list \<open>[sub-01, sub-02]\<close>:
  with \<open>--participant_ndx 1\<close> the index is in range and line 291 raises
  \<open>TypeError\<close>, since it subscripts the list with the string \<open>'1'\<close>; no data
  configuration file is written. With \<open>--participant_ndx 2\<close> the index is out of
  range: the valid range is printed and the script exits with status 1.
\<close>

theorem index_in_range_raises:
  "index_selection sample_rt (sample_args\<lparr>participant_ndx := Some ''1''\<rparr>) sample_manifest =
     ([], Inl (Raised TypeError)) \<and>
   snd (main sample_rt (sample_args\<lparr>data_config_file := Some ''/data/manifest.yml'', participant_ndx := Some ''1''\<rparr>)) =
     Raised TypeError \<and>
   written (fst (main sample_rt (sample_args\<lparr>data_config_file := Some ''/data/manifest.yml'', participant_ndx := Some ''1''\<rparr>))) =
     [''/out/cpac_pipeline_config_20180301120000.yml''] \<and>
   index_selection sample_rt (sample_args\<lparr>participant_ndx := Some ''2''\<rparr>) sample_manifest =
     ([Print ''Participant ndx {0} is out of bounds [0,{1})'' [PInt 2, PInt 2]], Inl (Exit 1))"
  by (simp add: run_defs merger_defs sample_defs)

subsection \<open>The dry run\<close>

text \<open>
  Claim C7. On every run at level \<open>test_config\<close> that reaches the dispatcher, the
  pipeline configuration and the data configuration have both been written, to files
  named with the one time stamp of the run (and the participant index, when one was
  given) under the same root; the script reports the two files and exits with status 0;
  the engine is not called.
\<close>

theorem test_config_dry_run:
  assumes "level a = Test_config" and "prepare rt a = (es, Inr s)"
  shows "main rt a =
       (es @ [Print test_run_message [PStr (config_file s), PStr (data_config_path_of s)]], Exit 0) \<and>
     WriteYaml (config_file s) (PDict (pipeline_config s)) \<in> set es \<and>
     WriteYaml (data_config_path_of s) (data_config s) \<in> set es \<and>
     written (fst (main rt a)) = [config_file s, data_config_path_of s] \<and>
     config_file s =
       path_join (if str_in ''s3://'' (lower (output_dir a)) then ''/scratch'' else output_dir a)
         (''cpac_pipeline_config_'' @ now rt @ ''.yml'') \<and>
     data_config_path_of s =
       path_join (if str_in ''s3://'' (lower (output_dir a)) then ''/scratch'' else output_dir a)
         (''cpac_data_config_'' @
          (case given (participant_ndx a) of None \<Rightarrow> [] | Some ndx \<Rightarrow> ''pt'' @ ndx @ ''_'') @
          now rt @ ''.yml'') \<and>
     \<not> engine_invoked (fst (main rt a))"
proof -
  have m: "main rt a =
       (es @ [Print test_run_message [PStr (config_file s), PStr (data_config_path_of s)]], Exit 0)"
    using main_after_prepare[OF assms(2)] assms(1) by simp
  from prepare_facts[OF assms(2)] obtain es0 where
    c: "config_file s = config_file_path rt a" and
    d: "data_config_path_of s = data_config_path a (''cpac_data_config_'' @
       (case given (participant_ndx a) of None \<Rightarrow> [] | Some ndx \<Rightarrow> ''pt'' @ ndx @ ''_'') @
       now rt @ ''.yml'')" and
    es: "es = es0 @ [WriteYaml (config_file s) (PDict (pipeline_config s)),
                     WriteYaml (data_config_path_of s) (data_config s)]" and
    w: "written es = [config_file s, data_config_path_of s]" and
    e: "\<not> engine_invoked es"
    by blast
  have c': "config_file s =
       path_join (if str_in ''s3://'' (lower (output_dir a)) then ''/scratch'' else output_dir a)
         (''cpac_pipeline_config_'' @ now rt @ ''.yml'')"
    unfolding c by (simp add: config_file_path_def)
  have d': "data_config_path_of s =
       path_join (if str_in ''s3://'' (lower (output_dir a)) then ''/scratch'' else output_dir a)
         (''cpac_data_config_'' @
          (case given (participant_ndx a) of None \<Rightarrow> [] | Some ndx \<Rightarrow> ''pt'' @ ndx @ ''_'') @
          now rt @ ''.yml'')"
    unfolding d by (simp add: data_config_path_def)
  have i1: "WriteYaml (config_file s) (PDict (pipeline_config s)) \<in> set es"
    and i2: "WriteYaml (data_config_path_of s) (data_config s) \<in> set es"
    unfolding es by simp_all
  show ?thesis
    unfolding m using i1 i2 w e c' d' by simp
qed

theorem test_config_dry_run_witness:
  "level (sample_args\<lparr>data_config_file := Some ''/data/manifest.yml''\<rparr>) = Test_config \<and>
   (\<exists>es s. prepare sample_rt (sample_args\<lparr>data_config_file := Some ''/data/manifest.yml''\<rparr>) = (es, Inr s)) \<and>
   snd (main sample_rt (sample_args\<lparr>data_config_file := Some ''/data/manifest.yml''\<rparr>)) = Exit 0 \<and>
   written (fst (main sample_rt (sample_args\<lparr>data_config_file := Some ''/data/manifest.yml''\<rparr>))) =
     [''/out/cpac_pipeline_config_20180301120000.yml'', ''/out/cpac_data_config_20180301120000.yml''] \<and>
   \<not> engine_invoked (fst (main sample_rt (sample_args\<lparr>data_config_file := Some ''/data/manifest.yml''\<rparr>)))"
proof -
  have l: "level (sample_args\<lparr>data_config_file := Some ''/data/manifest.yml''\<rparr>) = Test_config"
    by (simp add: sample_defs)
  have "\<exists>es s. prepare sample_rt (sample_args\<lparr>data_config_file := Some ''/data/manifest.yml''\<rparr>) = (es, Inr s)"
    by (simp add: run_defs merger_defs sample_defs)
  then obtain es s where
    p: "prepare sample_rt (sample_args\<lparr>data_config_file := Some ''/data/manifest.yml''\<rparr>) = (es, Inr s)"
    by blast
  have w: "written (fst (main sample_rt (sample_args\<lparr>data_config_file := Some ''/data/manifest.yml''\<rparr>))) =
     [''/out/cpac_pipeline_config_20180301120000.yml'', ''/out/cpac_data_config_20180301120000.yml'']"
    by (simp add: run_defs merger_defs sample_defs)
  show ?thesis
    using test_config_dry_run[OF l p] l p w by auto
qed

subsection \<open>Exit statuses\<close>



subsection \<open>Local and remote\<close>

text \<open>
  Claim C10. The script's test on the output directory, \<open>"s3://" in
  args.output_dir.lower()\<close>, holds exactly when the lower-cased name contains
  \<open>s3://\<close> somewhere. That one test places the crash and log directories, the
  pipeline configuration file and the data configuration file: under \<open>/scratch\<close> when
  it holds, under the output directory when it does not; so do the files of every run
  that reaches the dispatcher. The input directory is treated as remote only when its
  lower-cased name starts with \<open>s3://\<close>: otherwise it must exist, and when it does
  start so its existence is not looked at.
\<close>

theorem s3_classification:
  "(spec_remote_output a \<longleftrightarrow> str_in ''s3://'' (lower (output_dir a))) \<and>
   (\<forall>doc es cfg. override_merger rt a doc = (es, Inr cfg) \<longrightarrow>
      map_of cfg ''crashLogDirectory'' = Some (PStr (path_join (spec_artifact_root a) ''crash'')) \<and>
      map_of cfg ''logDirectory'' = Some (PStr (path_join (spec_artifact_root a) ''log''))) \<and>
   config_file_path rt a =
      path_join (spec_artifact_root a) (''cpac_pipeline_config_'' @ now rt @ ''.yml'') \<and>
   (\<forall>name. data_config_path a name = path_join (spec_artifact_root a) name) \<and>
   (\<forall>es s. prepare rt a = (es, Inr s) \<longrightarrow>
      written es =
        [path_join (spec_artifact_root a) (''cpac_pipeline_config_'' @ now rt @ ''.yml''),
         path_join (spec_artifact_root a) (''cpac_data_config_'' @
           (case given (participant_ndx a) of None \<Rightarrow> [] | Some ndx \<Rightarrow> ''pt'' @ ndx @ ''_'') @
           now rt @ ''.yml'')]) \<and>
   (\<not> spec_remote_input a \<and> \<not> path_exists rt (bids_dir a) \<longrightarrow>
      check_dirs rt a = ([Print ''Error! Could not find {0}'' [PStr (bids_dir a)]], Inl (Exit 0))) \<and>
   (spec_remote_input a \<longrightarrow>
      check_dirs rt a =
        (if \<not> prefix ''s3://'' (lower (output_dir a)) \<and> \<not> path_exists rt (output_dir a)
         then ([Print ''Error! Could not find {0}'' [PStr (output_dir a)]], Inl (Exit 0))
         else ([], Inr ())))"
proof -
  have r: "spec_remote_output a \<longleftrightarrow> str_in ''s3://'' (lower (output_dir a))"
    by (simp add: spec_remote_output_def str_in_sublist)
  have root: "spec_artifact_root a =
      (if str_in ''s3://'' (lower (output_dir a)) then ''/scratch'' else output_dir a)"
    by (simp add: spec_artifact_root_def r)
  have dirs: "map_of cfg ''crashLogDirectory'' = Some (PStr (path_join (spec_artifact_root a) ''crash'')) \<and>
      map_of cfg ''logDirectory'' = Some (PStr (path_join (spec_artifact_root a) ''log''))"
    if "override_merger rt a doc = (es, Inr cfg)" for doc es cfg
    using merged_config[OF that] unfolding root by blast
  have c: "config_file_path rt a =
      path_join (spec_artifact_root a) (''cpac_pipeline_config_'' @ now rt @ ''.yml'')"
    by (simp add: config_file_path_def root)
  have d: "data_config_path a name = path_join (spec_artifact_root a) name" for name
    by (simp add: data_config_path_def root)
  have w: "written es =
        [path_join (spec_artifact_root a) (''cpac_pipeline_config_'' @ now rt @ ''.yml''),
         path_join (spec_artifact_root a) (''cpac_data_config_'' @
           (case given (participant_ndx a) of None \<Rightarrow> [] | Some ndx \<Rightarrow> ''pt'' @ ndx @ ''_'') @
           now rt @ ''.yml'')]"
    if "prepare rt a = (es, Inr s)" for es s
    using prepare_facts[OF that] c d by simp
  have b1: "check_dirs rt a = ([Print ''Error! Could not find {0}'' [PStr (bids_dir a)]], Inl (Exit 0))"
    if "\<not> spec_remote_input a \<and> \<not> path_exists rt (bids_dir a)"
    using that by (simp add: check_dirs_def spec_remote_input_def startswith_prefix)
  have b2: "check_dirs rt a =
        (if \<not> prefix ''s3://'' (lower (output_dir a)) \<and> \<not> path_exists rt (output_dir a)
         then ([Print ''Error! Could not find {0}'' [PStr (output_dir a)]], Inl (Exit 0))
         else ([], Inr ()))"
    if "spec_remote_input a"
    using that by (simp add: check_dirs_def spec_remote_input_def startswith_prefix)
  from r dirs c d w b1 b2 show ?thesis by blast
qed

text \<open>
  The local output directory \<open>/data/s3://x\<close> has \<open>s3://\<close> in its middle, not at
  its start: both files and the crash and log directories go under \<open>/scratch\<close>. The
  input directory \<open>/data/s3://y\<close> is not remote and is reported missing;
  \<open>S3://bucket/data\<close> is remote.
\<close>

theorem s3_classification_witness:
  "spec_remote_output (sample_args\<lparr>output_dir := ''/data/s3://x'', data_config_file := Some ''/data/manifest.yml''\<rparr>) \<and>
   \<not> prefix ''s3://'' (lower ''/data/s3://x'') \<and>
   (\<exists>es s. prepare sample_rt (sample_args\<lparr>output_dir := ''/data/s3://x'', data_config_file := Some ''/data/manifest.yml''\<rparr>) = (es, Inr s) \<and>
      written es = [''/scratch/cpac_pipeline_config_20180301120000.yml'',
                    ''/scratch/cpac_data_config_20180301120000.yml''] \<and>
      map_of (pipeline_config s) ''crashLogDirectory'' = Some (PStr ''/scratch/crash'') \<and>
      map_of (pipeline_config s) ''logDirectory'' = Some (PStr ''/scratch/log'')) \<and>
   \<not> spec_remote_input (sample_args\<lparr>bids_dir := ''/data/s3://y''\<rparr>) \<and>
   check_dirs sample_rt (sample_args\<lparr>bids_dir := ''/data/s3://y''\<rparr>) =
     ([Print ''Error! Could not find {0}'' [PStr ''/data/s3://y'']], Inl (Exit 0)) \<and>
   spec_remote_input (sample_args\<lparr>bids_dir := ''S3://bucket/data''\<rparr>) \<and>
   check_dirs sample_rt (sample_args\<lparr>bids_dir := ''S3://bucket/data''\<rparr>) = ([], Inr ())"
proof -
  let ?a = "sample_args\<lparr>output_dir := ''/data/s3://x'', data_config_file := Some ''/data/manifest.yml''\<rparr>"
  let ?b = "sample_args\<lparr>bids_dir := ''/data/s3://y''\<rparr>"
  let ?c = "sample_args\<lparr>bids_dir := ''S3://bucket/data''\<rparr>"
  note t = s3_classification[of ?a sample_rt]
  have remote: "spec_remote_output ?a"
    using t by (simp add: lower_def lower_char_def)
  have np: "\<not> prefix ''s3://'' (lower ''/data/s3://x'')"
    by (simp add: lower_def lower_char_def)
  have root: "spec_artifact_root ?a = ''/scratch''"
    using remote by (simp add: spec_artifact_root_def)
  have "\<exists>es s. prepare sample_rt ?a = (es, Inr s)"
    by (simp add: run_defs merger_defs sample_defs)
  then obtain es s where p: "prepare sample_rt ?a = (es, Inr s)" by blast
  from prepare_facts[OF p] obtain doc esm where
    m: "override_merger sample_rt ?a doc = (esm, Inr (pipeline_config s))" by blast
  have w: "written es = [''/scratch/cpac_pipeline_config_20180301120000.yml'',
                    ''/scratch/cpac_data_config_20180301120000.yml'']"
    using t p unfolding root by (simp add: path_join_def given_def sample_defs)
  have dirs: "map_of (pipeline_config s) ''crashLogDirectory'' = Some (PStr ''/scratch/crash'') \<and>
      map_of (pipeline_config s) ''logDirectory'' = Some (PStr ''/scratch/log'')"
    using t m unfolding root by (simp add: path_join_def)
  have nb: "\<not> spec_remote_input ?b"
    by (simp add: spec_remote_input_def lower_def lower_char_def)
  have cb: "check_dirs sample_rt ?b =
     ([Print ''Error! Could not find {0}'' [PStr ''/data/s3://y'']], Inl (Exit 0))"
    using s3_classification[of ?b sample_rt] nb by (simp add: sample_defs)
  have rc: "spec_remote_input ?c"
    by (simp add: spec_remote_input_def lower_def lower_char_def)
  have cc: "check_dirs sample_rt ?c = ([], Inr ())"
    using s3_classification[of ?c sample_rt] rc by (simp add: sample_defs lower_def lower_char_def)
  from remote np p w dirs nb cb rc cc show ?thesis by blast
qed

end
